theory Spec2Isabelle
  imports Main
begin

section \<open>JavaScript values and string primitives\<close>

text \<open>
  The values a version extractor can hand to the request handler. \<open>JNum\<close> holds a number
  whose value is an integer, \<open>JFloat\<close> any other number but \<open>NaN\<close> (a fraction or an
  infinity), given by the text JavaScript prints for it; \<open>NaN\<close> is kept apart, since
  \<open>parseInt\<close> produces it and the handler's truthiness tests see it. \<open>JArr\<close> is an array and
  \<open>JObj\<close> any other object. Two numbers are strictly equal when their values are.
\<close>

datatype jsval =
    JUndefined | JNull | JBool bool | JNum int | JFloat string | JNaN | JStr string
  | JArr "jsval list" | JObj

text \<open>
  What leaves a handler as an exception: the \<open>TypeError\<close> of a method call on \<open>undefined\<close>,
  the error \<open>Hoek.assert\<close> throws, and whatever a callback throws.
\<close>

datatype js_error = TypeError | AssertionError | CallbackError string

text \<open>The truthiness of a value, as \<open>!x\<close> and \<open>x && y\<close> test it.\<close>

fun truthy :: "jsval \<Rightarrow> bool" where
  "truthy JUndefined = False"
| "truthy JNull = False"
| "truthy (JBool b) = b"
| "truthy (JNum n) = (n \<noteq> 0)"
| "truthy (JFloat s) = True"
| "truthy JNaN = False"
| "truthy (JStr s) = (s \<noteq> [])"
| "truthy (JArr xs) = True"
| "truthy JObj = True"

text \<open>
  \<open>Number.prototype.toString\<close> on an integer: decimal digits, with a leading minus sign. This
  is what JavaScript prints for the integers of magnitude up to \<open>2 ^ 53\<close>, which the versions
  of a validated configuration are.
\<close>

definition digit_char :: "nat \<Rightarrow> char" where
  "digit_char d = char_of (48 + d)"

fun string_of_nat :: "nat \<Rightarrow> string" where
  "string_of_nat n =
     (if n < 10 then [digit_char n] else string_of_nat (n div 10) @ [digit_char (n mod 10)])"

declare string_of_nat.simps [simp del]

definition string_of_int :: "int \<Rightarrow> string" where
  "string_of_int i = (if i < 0 then CHR ''-'' # string_of_nat (nat (- i)) else string_of_nat (nat i))"

text \<open>
  The string a value becomes when it is concatenated to a string with \<open>+\<close>. An array is its
  elements joined by commas, where \<open>null\<close> and \<open>undefined\<close> elements give the empty string.
\<close>

fun js_string :: "jsval \<Rightarrow> string" and js_join :: "jsval list \<Rightarrow> string" where
  "js_string JUndefined = ''undefined''"
| "js_string JNull = ''null''"
| "js_string (JBool b) = (if b then ''true'' else ''false'')"
| "js_string (JNum n) = string_of_int n"
| "js_string (JFloat s) = s"
| "js_string JNaN = ''NaN''"
| "js_string (JStr s) = s"
| "js_string (JArr xs) = js_join xs"
| "js_string JObj = ''[object Object]''"
| "js_join [] = []"
| "js_join [x] = (if x = JUndefined \<or> x = JNull then [] else js_string x)"
| "js_join (x # y # ys) =
     (if x = JUndefined \<or> x = JNull then [] else js_string x) @ '','' @ js_join (y # ys)"

text \<open>\<open>Array.prototype.join(',')\<close> on an array of integers.\<close>

fun join_versions :: "int list \<Rightarrow> string" where
  "join_versions [] = []"
| "join_versions [v] = string_of_int v"
| "join_versions (v # vs) = string_of_int v @ '','' @ join_versions vs"

text \<open>\<open>s.startsWith(p)\<close>, which is also \<open>s.indexOf(p) === 0\<close>.\<close>

definition startsWith :: "string \<Rightarrow> string \<Rightarrow> bool" where
  "startsWith p s = (take (length p) s = p)"

text \<open>\<open>s.slice(i)\<close>: a negative index counts from the end of the string.\<close>

definition js_slice :: "string \<Rightarrow> int \<Rightarrow> string" where
  "js_slice s i = (if i < 0 then drop (nat (int (length s) + i)) s else drop (nat i) s)"

text \<open>\<open>s.split(c)\<close> for a one-character separator: never the empty array.\<close>

fun split_on :: "char \<Rightarrow> string \<Rightarrow> string list" where
  "split_on c [] = [[]]"
| "split_on c (x # xs) =
     (if x = c then [] # split_on c xs
      else (case split_on c xs of [] \<Rightarrow> [[x]] | y # ys \<Rightarrow> (x # y) # ys))"

text \<open>\<open>a[i]\<close> on an array: \<open>undefined\<close> (here \<open>None\<close>) out of range.\<close>

fun nth_opt :: "'a list \<Rightarrow> nat \<Rightarrow> 'a option" where
  "nth_opt [] i = None"
| "nth_opt (x # xs) 0 = Some x"
| "nth_opt (x # xs) (Suc i) = nth_opt xs i"

text \<open>The character classes \<open>[0-9]\<close> and \<open>[a-zA-Z0-9]\<close>, by character code.\<close>

definition char_code :: "char \<Rightarrow> nat" where
  "char_code c = of_char c"

definition is_digit :: "char \<Rightarrow> bool" where
  "is_digit c = (48 \<le> char_code c \<and> char_code c \<le> 57)"

definition is_alnum :: "char \<Rightarrow> bool" where
  "is_alnum c =
     ((97 \<le> char_code c \<and> char_code c \<le> 122) \<or> (65 \<le> char_code c \<and> char_code c \<le> 90) \<or> is_digit c)"

definition is_space :: "char \<Rightarrow> bool" where
  "is_space c = (c \<in> set [CHR '' '', CHR 0x09, CHR 0x0A, CHR 0x0B, CHR 0x0C, CHR 0x0D])"

definition digit_val :: "char \<Rightarrow> int" where
  "digit_val c = int (char_code c) - 48"

definition decimal :: "string \<Rightarrow> int" where
  "decimal ds = foldl (\<lambda>acc c. acc * 10 + digit_val c) 0 ds"

text \<open>
  A JavaScript number is a double. \<open>round_double n\<close> is the double nearest to the natural
  number \<open>n\<close>: \<open>n\<close> itself when it has at most 53 significant bits, and otherwise \<open>n\<close> rounded
  to 53 significant bits, a tie going to the even neighbour. What lies beyond the largest
  double is an infinity.
\<close>

function bit_length :: "int \<Rightarrow> nat" where
  "bit_length n = (if n \<le> 0 then 0 else Suc (bit_length (n div 2)))"
  by pat_completeness auto

termination bit_length
  by (relation "measure nat") auto

declare bit_length.simps [simp del]

definition round_double :: "int \<Rightarrow> int" where
  "round_double n =
     (let e = bit_length n - 53; q = n div 2 ^ e; r = n mod 2 ^ e in
      if e = 0 then n
      else if 2 ^ (e - 1) < r \<or> (r = 2 ^ (e - 1) \<and> odd q) then (q + 1) * 2 ^ e
      else q * 2 ^ e)"

definition js_number :: "bool \<Rightarrow> int \<Rightarrow> jsval" where
  "js_number neg n =
     (let d = round_double n in
      if 1024 < bit_length d then JFloat (if neg then ''-Infinity'' else ''Infinity'')
      else JNum (if neg then - d else d))"

text \<open>
  \<open>parseInt(s, 10)\<close>: leading white space is skipped, one sign is read, then the longest
  run of decimal digits; with no digit the result is \<open>NaN\<close>, and otherwise the number
  nearest to the integer the digits denote.
\<close>

definition parseInt :: "string \<Rightarrow> jsval" where
  "parseInt s =
     (let t = dropWhile is_space s;
          neg = (case t of [] \<Rightarrow> False | c # _ \<Rightarrow> c = CHR ''-'');
          u = (case t of [] \<Rightarrow> [] | c # r \<Rightarrow> if c = CHR ''-'' \<or> c = CHR ''+'' then r else t);
          ds = takeWhile is_digit u
      in if ds = [] then JNaN else js_number neg (decimal ds))"

text \<open>\<open>s.trim()\<close>.\<close>

definition trim :: "string \<Rightarrow> string" where
  "trim s = rev (dropWhile is_space (rev (dropWhile is_space s)))"

section \<open>Requests\<close>

text \<open>
  The per-request slot \<open>request.plugins['hapi-api-version']\<close>. A property the source leaves
  unset is \<open>undefined\<close>: \<open>JUndefined\<close> for \<open>apiVersion\<close>, \<open>None\<close> for the descriptor.
\<close>

record request_plugin =
  apiVersion :: jsval
  useDefault :: bool
  count :: nat
  resolvedBy :: "string option"

text \<open>
  A request as the handler sees it: \<open>path\<close> is \<open>request.path\<close>, \<open>url_path\<close> is
  \<open>request.url.path\<close> (the path followed by the query string, as the client sent it or as
  \<open>setUrl\<close> was given it), \<open>headers\<close> maps a lower-case header name to its value, \<open>plugins\<close> is
  the slot above (\<open>None\<close> while it is unset). \<open>router_normalize\<close> is the normalisation of
  percent escapes that the framework's router applies to a path,
  \<open>request.connection._router.normalize\<close>. \<open>setUrl_calls\<close> is a ghost field: the arguments of
  the calls of \<open>request.setUrl\<close> so far, the latest first.
\<close>

record request =
  http_method :: string
  path :: string
  url_path :: string
  headers :: "string \<Rightarrow> string option"
  plugins :: "request_plugin option"
  router_normalize :: "string \<Rightarrow> string"
  setUrl_calls :: "string list"

text \<open>
  \<open>request.setUrl(url)\<close>, the framework's primitive, as hapi 10 has it: the URL is parsed and
  kept as it is, its path being the part before the first question mark, and \<open>request.path\<close>
  becomes that path normalised by the router. The framework builds a request the same way,
  with \<open>setUrl\<close> on the request line, so \<open>request.path\<close> is the normalised path while
  \<open>request.url.path\<close> is the text received.
\<close>

definition pathname :: "string \<Rightarrow> string" where
  "pathname u = takeWhile (\<lambda>c. c \<noteq> CHR ''?'') u"

definition search :: "string \<Rightarrow> string" where
  "search u = dropWhile (\<lambda>c. c \<noteq> CHR ''?'') u"

definition setUrl :: "string \<Rightarrow> request \<Rightarrow> request" where
  "setUrl u r =
     r\<lparr>path := router_normalize r (pathname u), url_path := u, setUrl_calls := u # setUrl_calls r\<rparr>"

section \<open>Options and the media-type extractor\<close>

text \<open>
  The object \<open>MediaType.fromString\<close> returns, as far as the extractor reads it. The parser
  belongs to the \<open>media-type\<close> package and is a parameter of the extractor.
\<close>

record media =
  isValid :: bool
  subtype :: string
  subtypeFacets :: "string list"

text \<open>
  The options after validation, as the handler's closure holds them. The schema leaves safe
  integers in \<open>validVersions\<close>, \<open>defaultVersion\<close> and \<open>invalidVersionErrorCode\<close>.
\<close>

record options =
  validVersions :: "int list"
  defaultVersion :: int
  passiveMode :: bool
  basePath :: string
  vendorName :: "string option"
  getVersion :: "(request \<Rightarrow> js_error + jsval) option"
  descriptor :: string
  invalidVersionErrorCode :: int

text \<open>
  The regular expression \<open>/^vnd.[a-zA-Z0-9]+\.v[0-9]+$/\<close>. Its first dot is not escaped and
  matches any character but a line terminator. The run \<open>[a-zA-Z0-9]+\<close> is followed by a
  literal dot, which is not alphanumeric, so the run is the longest one.
\<close>

definition subtype_regex :: "string \<Rightarrow> bool" where
  "subtype_regex s =
     (case s of
        a # b # c # d # rest \<Rightarrow>
          a = CHR ''v'' \<and> b = CHR ''n'' \<and> c = CHR ''d'' \<and> d \<noteq> CHR 0x0A \<and> d \<noteq> CHR 0x0D \<and>
          takeWhile is_alnum rest \<noteq> [] \<and>
          (case dropWhile is_alnum rest of
             e # f # ds \<Rightarrow> e = CHR ''.'' \<and> f = CHR ''v'' \<and> ds \<noteq> [] \<and> list_all is_digit ds
           | _ \<Rightarrow> False)
      | _ \<Rightarrow> False)"

text \<open>
  \<open>_extractVersionFromAcceptHeader\<close>. \<open>JNull\<close> is "no version requested", \<open>JNum (- 1)\<close> the
  malformed sentinel. Reading \<open>subtypeFacets[2]\<close> out of range gives \<open>undefined\<close>, and the
  call of \<open>replace\<close> on it throws a \<open>TypeError\<close>.
\<close>

definition extractVersionFromAcceptHeader ::
  "(string \<Rightarrow> media) \<Rightarrow> request \<Rightarrow> options \<Rightarrow> js_error + jsval" where
  "extractVersionFromAcceptHeader fromString request options =
     (case headers request ''accept'' of
        None \<Rightarrow> Inr JNull
      | Some acceptHeader \<Rightarrow>
          if acceptHeader = [] then Inr JNull
          else
            let media = fromString acceptHeader in
            if isValid media \<and> subtype_regex (subtype media) then
              if nth_opt (subtypeFacets media) 1 \<noteq> vendorName options then Inr (JNum (- 1))
              else
                (case nth_opt (subtypeFacets media) 2 of
                   None \<Rightarrow> Inl TypeError
                 | Some facet \<Rightarrow> Inr (parseInt (remove1 CHR ''v'' facet)))
            else Inr (JNum (- 1)))"

section \<open>The request handler\<close>

text \<open>
  The server as the plugin uses it: \<open>plugin_count\<close> and \<open>plugin_descriptors\<close> are the object
  \<open>server.plugins['hapi-api-version']\<close> (created with count 0 and no descriptor by the first
  registration that reaches it), \<open>onRequest_exts\<close> the handlers added with \<open>server.ext\<close>, each
  one the closure over its options, in registration order. \<open>route_match\<close> is \<open>server.match\<close>:
  the registered path of the route that matches a method and a path, if there is one.
\<close>

record server =
  plugin_count :: nat
  plugin_descriptors :: "string list"
  onRequest_exts :: "options list"
  route_match :: "string \<Rightarrow> string \<Rightarrow> string option"

text \<open>
  What a handler does with the request: \<open>reply.continue()\<close>, \<open>reply(error)\<close> with the status
  code and the message of the error, or an exception that leaves the handler. Each carries
  the request as the handler left it.
\<close>

datatype outcome = Continue request | Reply int string request | Throw js_error request


text \<open>
  \<open>Hoek.contain(ref, values)\<close> for an array \<open>ref\<close> of numbers, without options. The values
  are \<open>[].concat(values)\<close>: the elements of an array, or the one value that is no array. An
  empty array of values fails the assertion \<open>Values array cannot be empty\<close>. Each member of
  \<open>ref\<close> is counted for the first value it is strictly equal to, and the result is true when
  every value has been counted at least once.
\<close>

fun first_match :: "jsval list \<Rightarrow> int \<Rightarrow> nat option" where
  "first_match [] n = None"
| "first_match (x # xs) n =
     (if x = JNum n then Some 0 else map_option Suc (first_match xs n))"

definition hoek_contain :: "int list \<Rightarrow> jsval \<Rightarrow> js_error + bool" where
  "hoek_contain ref v =
     (let values = (case v of JArr xs \<Rightarrow> xs | _ \<Rightarrow> [v]) in
      if values = [] then Inl AssertionError
      else Inr (list_all (\<lambda>j. list_ex (\<lambda>n. first_match values n = Some j) ref)
                  [0..<length values]))"

text \<open>The candidate passes validation: the call returns, and returns true.\<close>

definition contain :: "int list \<Rightarrow> jsval \<Rightarrow> bool" where
  "contain ref v = (hoek_contain ref v = Inr True)"

text \<open>
  \<open>Boom.create(statusCode, message)\<close>: the error object, by its status code and message. The
  call asserts that the status code is 400 or more.
\<close>

definition boom_create :: "int \<Rightarrow> string \<Rightarrow> js_error + int \<times> string" where
  "boom_create statusCode message =
     (if 400 \<le> statusCode then Inr (statusCode, message) else Inl AssertionError)"

text \<open>
  The handler registered with \<open>server.ext('onRequest', ...)\<close>. \<open>requestPlugin\<close> is the object in
  the request's slot, so its incremented count is in the request every later step sees.
  \<open>Hoek.contain\<close> is called only on a truthy candidate, and \<open>Boom.create\<close> only when it
  returned false; an exception of either leaves the handler.
\<close>

definition onRequest :: "(string \<Rightarrow> media) \<Rightarrow> server \<Rightarrow> options \<Rightarrow> request \<Rightarrow> outcome" where
  "onRequest fromString server options request =
     (let isRootPath = (basePath options = ''/'') in
      if \<not> isRootPath \<and> \<not> startsWith (basePath options) (path request) then Continue request
      else
        let requestPlugin0 =
              (case plugins request of
                 Some p \<Rightarrow> p
               | None \<Rightarrow> \<lparr>apiVersion = JUndefined, useDefault = True, count = 0, resolvedBy = None\<rparr>)
        in
        if truthy (apiVersion requestPlugin0) \<and> \<not> useDefault requestPlugin0
        then Continue (request\<lparr>plugins := Some requestPlugin0\<rparr>)
        else
          let requestPlugin = requestPlugin0\<lparr>count := count requestPlugin0 + 1\<rparr>;
              request = request\<lparr>plugins := Some requestPlugin\<rparr>
          in
          (case (case getVersion options of
                   Some f \<Rightarrow> f request
                 | None \<Rightarrow> extractVersionFromAcceptHeader fromString request options) of
             Inl e \<Rightarrow> Throw e request
           | Inr requestedVersion \<Rightarrow>
               if passiveMode options \<and> \<not> truthy requestedVersion then Continue request
               else
                 (case (if truthy requestedVersion
                        then hoek_contain (validVersions options) requestedVersion
                        else Inr True) of
                    Inl e \<Rightarrow> Throw e request
                  | Inr isMember \<Rightarrow>
                      if truthy requestedVersion \<and> \<not> isMember
                      then
                        (case boom_create (invalidVersionErrorCode options)
                                (''Invalid api-version. Valid values: '' @
                                 join_versions (validVersions options)) of
                           Inl e \<Rightarrow> Throw e request
                         | Inr (code, message) \<Rightarrow> Reply code message request)
                      else if \<not> truthy requestedVersion \<and> count requestPlugin \<noteq> plugin_count server
                      then Continue request
                      else
                        let useDefault = \<not> truthy requestedVersion;
                            requestedVersion =
                              (if useDefault then JNum (defaultVersion options) else requestedVersion);
                            versionedPath =
                              basePath options @ ''v'' @ js_string requestedVersion @
                              js_slice (path request) (int (length (basePath options)) - 1)
                        in
                        (case route_match server (http_method request) versionedPath of
                           None \<Rightarrow> Continue request
                         | Some route_path \<Rightarrow>
                             if startsWith (basePath options @ ''v'' @ js_string requestedVersion @ ''/'')
                                  route_path
                             then
                               Continue
                                 ((setUrl
                                     (basePath options @ ''v'' @ js_string requestedVersion @
                                      js_slice (url_path request) (int (length (basePath options)) - 1))
                                     request)
                                  \<lparr>plugins :=
                                     Some \<lparr>apiVersion = requestedVersion,
                                           useDefault = useDefault,
                                           count = count requestPlugin,
                                           resolvedBy =
                                             Some (if useDefault then ''default''
                                                   else descriptor options)\<rparr>\<rparr>)
                             else Continue request))))"

text \<open>
  The handlers of one request run one after the other, in registration order; a reply or
  an exception ends the chain.
\<close>

fun run_exts :: "(string \<Rightarrow> media) \<Rightarrow> server \<Rightarrow> options list \<Rightarrow> request \<Rightarrow> outcome" where
  "run_exts fromString server [] request = Continue request"
| "run_exts fromString server (options # rest) request =
     (case onRequest fromString server options request of
        Continue request' \<Rightarrow> run_exts fromString server rest request'
      | Reply code message request' \<Rightarrow> Reply code message request'
      | Throw e request' \<Rightarrow> Throw e request')"


section \<open>Registration\<close>

text \<open>
  A value of the options object handed to \<open>register\<close>, as the caller wrote it. \<open>OMissing\<close>
  is an absent key (or \<open>undefined\<close>), \<open>OInt\<close> a number whose value is an integer, \<open>OFloat\<close>
  any other number, by its text. Arrays, functions and other objects are taken as distinct
  objects: none is identical to another.
\<close>

datatype optval =
    OMissing | ONull | OBool bool | OInt int | OFloat string | OStr string
  | OArr "optval list" | OFunc "request \<Rightarrow> js_error + jsval" | OObj

record raw_options =
  raw_validVersions :: optval
  raw_defaultVersion :: optval
  raw_passiveMode :: optval
  raw_basePath :: optval
  raw_vendorName :: optval
  raw_getVersion :: optval
  raw_descriptor :: optval
  raw_invalidVersionErrorCode :: optval
  unknownKeys :: "string list"

text \<open>
  The conversions of Joi, which are on by default: what a string becomes where the schema
  asks for a number, a boolean or an array (the string itself when it does not convert).
  They belong to the \<open>joi\<close> package and are a parameter of the validation.
\<close>

record joi_convert =
  to_number :: "string \<Rightarrow> optval"
  to_boolean :: "string \<Rightarrow> optval"
  to_array :: "string \<Rightarrow> optval"

text \<open>
  A refused registration: the error of \<open>Joi.validate\<close>, or the \<open>Error\<close> for a descriptor that
  is already in use, by its message. The validation error lists the keys that fail the checks
  below (\<open>value\<close> for the object itself); the wording of Joi's messages is not modelled.
\<close>

datatype reg_error = ValidationError "string list" | Error string

fun present :: "optval \<Rightarrow> bool" where
  "present OMissing = False"
| "present v = True"

text \<open>\<open>Joi.number().integer()\<close>: after conversion, a safe integer.\<close>

definition joi_number :: "joi_convert \<Rightarrow> optval \<Rightarrow> optval" where
  "joi_number conv v = (case v of OStr s \<Rightarrow> to_number conv s | _ \<Rightarrow> v)"

definition safe_integer :: "int \<Rightarrow> bool" where
  "safe_integer n = (- 9007199254740991 \<le> n \<and> n \<le> 9007199254740991)"

definition joi_integer :: "joi_convert \<Rightarrow> optval \<Rightarrow> int option" where
  "joi_integer conv v =
     (case joi_number conv v of OInt n \<Rightarrow> if safe_integer n then Some n else None | _ \<Rightarrow> None)"

text \<open>\<open>Joi.array().items(Joi.number().integer()).min(1).required()\<close>.\<close>

definition joi_validVersions :: "joi_convert \<Rightarrow> optval \<Rightarrow> int list option" where
  "joi_validVersions conv v =
     (case (case v of OStr s \<Rightarrow> to_array conv s | _ \<Rightarrow> v) of
        OArr xs \<Rightarrow>
          (case those (map (joi_integer conv) xs) of
             Some ns \<Rightarrow> if 1 \<le> length ns then Some ns else None
           | None \<Rightarrow> None)
      | _ \<Rightarrow> None)"

text \<open>
  \<open>Joi.any().valid(Joi.ref('validVersions')).required()\<close>: the value, which is not converted,
  is strictly equal to a member of what the key \<open>validVersions\<close> holds then. That is the
  converted array when \<open>validVersions\<close> passed its own check, and the caller's value when it
  did not (a value that is no array counts as its only member).
\<close>

fun strict_eq :: "optval \<Rightarrow> optval \<Rightarrow> bool" where
  "strict_eq ONull ONull = True"
| "strict_eq (OBool a) (OBool b) = (a = b)"
| "strict_eq (OInt a) (OInt b) = (a = b)"
| "strict_eq (OFloat a) (OFloat b) = (a = b)"
| "strict_eq (OStr a) (OStr b) = (a = b)"
| "strict_eq a b = False"

definition joi_defaultVersion :: "optval \<Rightarrow> optval \<Rightarrow> optval option" where
  "joi_defaultVersion reference v =
     (if present v \<and> list_ex (strict_eq v) (case reference of OArr xs \<Rightarrow> xs | _ \<Rightarrow> [reference])
      then Some v else None)"

text \<open>\<open>Joi.boolean().default(false)\<close>.\<close>

definition joi_passiveMode :: "joi_convert \<Rightarrow> optval \<Rightarrow> bool option" where
  "joi_passiveMode conv v =
     (case (case v of OStr s \<Rightarrow> to_boolean conv s | _ \<Rightarrow> v) of
        OMissing \<Rightarrow> Some False
      | OBool b \<Rightarrow> Some b
      | _ \<Rightarrow> None)"

text \<open>\<open>Joi.string().trim().min(1)\<close>, with the default to use for an absent key.\<close>

fun joi_trimmed :: "string option \<Rightarrow> optval \<Rightarrow> string option option" where
  "joi_trimmed dflt OMissing = Some dflt"
| "joi_trimmed dflt (OStr s) = (if 1 \<le> length (trim s) then Some (Some (trim s)) else None)"
| "joi_trimmed dflt v = None"

text \<open>\<open>Joi.func()\<close>.\<close>

fun joi_func :: "optval \<Rightarrow> (request \<Rightarrow> js_error + jsval) option option" where
  "joi_func OMissing = Some None"
| "joi_func (OFunc f) = Some (Some f)"
| "joi_func v = None"

text \<open>\<open>Joi.string().min(1).invalid('default').default('mediatype')\<close>.\<close>

fun joi_descriptor :: "optval \<Rightarrow> string option" where
  "joi_descriptor OMissing = Some ''mediatype''"
| "joi_descriptor (OStr s) = (if 1 \<le> length s \<and> s \<noteq> ''default'' then Some s else None)"
| "joi_descriptor v = None"

text \<open>\<open>Joi.number().integer().default(415)\<close>.\<close>

definition joi_errorCode :: "joi_convert \<Rightarrow> optval \<Rightarrow> int option" where
  "joi_errorCode conv v = (case v of OMissing \<Rightarrow> Some 415 | _ \<Rightarrow> joi_integer conv v)"

text \<open>
  \<open>Joi.validate(options, internals.optionsSchema, {abortEarly: false, allowUnknown: false})\<close>:
  every key is checked and every failure reported, then the keys the schema does not know,
  then \<open>xor\<close>, which wants exactly one of \<open>vendorName\<close> and \<open>getVersion\<close> present.
\<close>

definition joi_validate :: "joi_convert \<Rightarrow> raw_options \<Rightarrow> reg_error + options" where
  "joi_validate conv raw =
     (let vs = joi_validVersions conv (raw_validVersions raw);
          reference = (case vs of Some ns \<Rightarrow> OArr (map OInt ns) | None \<Rightarrow> raw_validVersions raw);
          dv = joi_defaultVersion reference (raw_defaultVersion raw);
          pm = joi_passiveMode conv (raw_passiveMode raw);
          bp = joi_trimmed (Some ''/'') (raw_basePath raw);
          vn = joi_trimmed None (raw_vendorName raw);
          gv = joi_func (raw_getVersion raw);
          ds = joi_descriptor (raw_descriptor raw);
          ec = joi_errorCode conv (raw_invalidVersionErrorCode raw);
          xor = (present (raw_vendorName raw) \<noteq> present (raw_getVersion raw))
      in
      case (vs, dv, pm, bp, vn, gv, ds, ec) of
        (Some vs', Some (OInt dv'), Some pm', Some (Some bp'), Some vn', Some gv', Some ds', Some ec') \<Rightarrow>
          if xor \<and> unknownKeys raw = [] then
            Inr \<lparr>validVersions = vs', defaultVersion = dv', passiveMode = pm', basePath = bp',
                 vendorName = vn', getVersion = gv', descriptor = ds',
                 invalidVersionErrorCode = ec'\<rparr>
          else Inl (ValidationError (unknownKeys raw @ (if xor then [] else [''value''])))
      | _ \<Rightarrow>
          Inl (ValidationError
                 ((if vs = None then [''validVersions''] else []) @
                  (if dv = None then [''defaultVersion''] else []) @
                  (if pm = None then [''passiveMode''] else []) @
                  (if bp = None then [''basePath''] else []) @
                  (if vn = None then [''vendorName''] else []) @
                  (case gv of None \<Rightarrow> [''getVersion''] | Some _ \<Rightarrow> []) @
                  (if ds = None then [''descriptor''] else []) @
                  (if ec = None then [''invalidVersionErrorCode''] else []) @
                  unknownKeys raw @ (if xor then [] else [''value'']))))"

text \<open>The message of the error for a descriptor that is already in use.\<close>

definition duplicate_message :: "string \<Rightarrow> string" where
  "duplicate_message d =
     ''hapi-api-version plugins contain duplicate descriptors '' @ [CHR 0x27] @ d @ [CHR 0x27] @
     ''. When registering multiple plugins, each plugin must be assigned a unique descriptor.''"

text \<open>
  \<open>exports.register\<close>: the result is the error handed to \<open>next\<close>, if any, with the server as
  the call leaves it. A refused registration returns before \<open>server.ext\<close> is reached.
\<close>

definition register :: "joi_convert \<Rightarrow> server \<Rightarrow> raw_options \<Rightarrow> reg_error option \<times> server" where
  "register conv server raw =
     (case joi_validate conv raw of
        Inl e \<Rightarrow> (Some e, server)
      | Inr options \<Rightarrow>
          if descriptor options \<in> set (plugin_descriptors server)
          then (Some (Error (duplicate_message (descriptor options))), server)
          else
            (None,
             server\<lparr>plugin_count := plugin_count server + 1,
                    plugin_descriptors := plugin_descriptors server @ [descriptor options],
                    onRequest_exts := onRequest_exts server @ [options]\<rparr>))"

text \<open>A server on which the plugin has not been registered yet.\<close>

definition new_server :: "(string \<Rightarrow> string \<Rightarrow> string option) \<Rightarrow> server" where
  "new_server m = \<lparr>plugin_count = 0, plugin_descriptors = [], onRequest_exts = [], route_match = m\<rparr>"

section \<open>The claims' own words, and concrete collaborators\<close>

text \<open>
  The subtype pattern as the specification words it: \<open>vnd.<token>.v<digits>\<close> with two
  literal dots. The result is the vendor token and the digits.
\<close>

definition vnd_pattern :: "string \<Rightarrow> (string \<times> string) option" where
  "vnd_pattern s =
     (case s of
        a # b # c # d # rest \<Rightarrow>
          if a = CHR ''v'' \<and> b = CHR ''n'' \<and> c = CHR ''d'' \<and> d = CHR ''.'' then
            (case dropWhile is_alnum rest of
               e # f # ds \<Rightarrow>
                 if e = CHR ''.'' \<and> f = CHR ''v'' \<and> takeWhile is_alnum rest \<noteq> [] \<and>
                    ds \<noteq> [] \<and> list_all is_digit ds
                 then Some (takeWhile is_alnum rest, ds) else None
             | _ \<Rightarrow> None)
          else None
      | _ \<Rightarrow> None)"

text \<open>
  The media-type extractor as the specification words it: no version for an absent header,
  the malformed sentinel for an invalid media type, a subtype off the pattern or another
  vendor, and otherwise the integer that the digits denote in base 10.
\<close>

definition extract_spec :: "(string \<Rightarrow> media) \<Rightarrow> string option \<Rightarrow> string \<Rightarrow> jsval" where
  "extract_spec fromString header vendor =
     (case header of
        None \<Rightarrow> JNull
      | Some h \<Rightarrow>
          if \<not> isValid (fromString h) then JNum (- 1)
          else
            (case vnd_pattern (subtype (fromString h)) of
               None \<Rightarrow> JNum (- 1)
             | Some (tok, ds) \<Rightarrow> if tok \<noteq> vendor then JNum (- 1) else JNum (decimal ds)))"

text \<open>An integer as a JavaScript number holds it: the nearest double.\<close>

fun as_double :: "jsval \<Rightarrow> jsval" where
  "as_double (JNum n) = js_number (n < 0) \<bar>n\<bar>"
| "as_double v = v"

text \<open>A vendor name that reads like a version facet, \<open>v<digits>\<close>.\<close>

definition version_facet :: "string \<Rightarrow> bool" where
  "version_facet s = (case s of [] \<Rightarrow> False | c # ds \<Rightarrow> c = CHR ''v'' \<and> ds \<noteq> [] \<and> list_all is_digit ds)"

text \<open>
  The version-qualified path as the specification words it: a segment \<open>v<version>\<close> inserted
  immediately after the base path, as in \<open>/users\<close> to \<open>/v2/users\<close> under \<open>/\<close> and \<open>/api/users\<close>
  to \<open>/api/v2/users\<close> under \<open>/api/\<close>.
\<close>

definition qualified_path :: "string \<Rightarrow> string \<Rightarrow> string \<Rightarrow> string" where
  "qualified_path base version p = base @ ''v'' @ version @ ''/'' @ drop (length base) p"

text \<open>
  A model of the parser of the \<open>media-type\<close> package, for the concrete requests below (the
  theorems about the extractor take the parser as a parameter): a known top-level
  type, a slash, a subtype of 1 to 127 permitted characters, then nothing or parameters after
  a semicolon. A suffix after \<open>+\<close> is split off the subtype, and the facets are the subtype
  split at its dots.
\<close>

definition subtype_char :: "char \<Rightarrow> bool" where
  "subtype_char c =
     (is_alnum c \<or>
      c \<in> set [CHR ''!'', CHR ''#'', CHR ''$'', CHR ''%'', CHR ''^'', CHR ''&'', CHR ''*'', CHR ''_'',
                CHR ''-'', CHR ''+'', CHR ''{'', CHR ''}'', CHR ''|'', CHR 0x27, CHR ''.'', CHR 0x60,
                CHR ''~''])"

definition mediaType_fromString :: "string \<Rightarrow> media" where
  "mediaType_fromString str =
     (let ty = takeWhile (\<lambda>c. c \<noteq> CHR ''/'') str;
          after = drop 1 (dropWhile (\<lambda>c. c \<noteq> CHR ''/'') str);
          sub = takeWhile subtype_char after;
          params = dropWhile subtype_char after;
          ok =
            (ty \<in> set [''application'', ''audio'', ''font'', ''image'', ''message'', ''model'',
                        ''multipart'', ''text'', ''video'', ''*''] \<and>
             dropWhile (\<lambda>c. c \<noteq> CHR ''/'') str \<noteq> [] \<and>
             1 \<le> length sub \<and> length sub \<le> 127 \<and>
             (params = [] \<or>
              take 1 params = '';'' \<and> CHR 0x0A \<notin> set params \<and> CHR 0x0D \<notin> set params) \<and>
             \<not> (ty = ''*'' \<and> sub \<noteq> ''*''));
          sub' =
            (if CHR ''+'' \<in> set sub \<and> last sub \<noteq> CHR ''+''
             then takeWhile (\<lambda>c. c \<noteq> CHR ''+'') sub else sub)
      in if ok
         then \<lparr>isValid = (sub' \<noteq> ''example''), subtype = sub', subtypeFacets = split_on CHR ''.'' sub'\<rparr>
         else \<lparr>isValid = False, subtype = [], subtypeFacets = []\<rparr>)"

text \<open>
  A model of the router's normalisation, for the concrete requests below (the theorems about
  the handler take it as the request's \<open>router_normalize\<close>): the hexadecimal digits of every
  percent escape are put in upper case, then the escapes of the characters that need none in
  a path (letters, digits and \<open>_!$&'()*+,;=:@-.~\<close>) are replaced by the characters.
\<close>

definition hex_val :: "char \<Rightarrow> nat option" where
  "hex_val c =
     (if is_digit c then Some (char_code c - 48)
      else if 65 \<le> char_code c \<and> char_code c \<le> 70 then Some (char_code c - 55)
      else if 97 \<le> char_code c \<and> char_code c \<le> 102 then Some (char_code c - 87)
      else None)"

definition upper_hex :: "char \<Rightarrow> char" where
  "upper_hex c = (if 97 \<le> char_code c \<and> char_code c \<le> 102 then char_of (char_code c - 32) else c)"

fun uppercase_escapes :: "string \<Rightarrow> string" where
  "uppercase_escapes (c # a # b # s) =
     (if c = CHR ''%'' \<and> hex_val a \<noteq> None \<and> hex_val b \<noteq> None
      then c # upper_hex a # upper_hex b # uppercase_escapes s
      else c # uppercase_escapes (a # b # s))"
| "uppercase_escapes s = s"

definition unreserved_escape :: "char \<Rightarrow> char \<Rightarrow> bool" where
  "unreserved_escape a b =
     ((a = CHR ''2'' \<and> b \<in> set ''146789ABCDE'') \<or>
      (a = CHR ''3'' \<and> (is_digit b \<or> b \<in> set ''ABD'')) \<or>
      (a = CHR ''4'' \<and> (is_digit b \<or> b \<in> set ''ABCDEF'')) \<or>
      (a = CHR ''5'' \<and> (is_digit b \<or> b \<in> set ''AF'')) \<or>
      (a = CHR ''6'' \<and> b \<in> set ''123456789ABCDEF'') \<or>
      (a = CHR ''7'' \<and> (is_digit b \<or> b \<in> set ''AE'')))"

fun decode_unreserved :: "string \<Rightarrow> string" where
  "decode_unreserved (c # a # b # s) =
     (if c = CHR ''%'' \<and> unreserved_escape a b
      then char_of (16 * the (hex_val a) + the (hex_val b)) # decode_unreserved s
      else c # decode_unreserved (a # b # s))"
| "decode_unreserved s = s"

definition call_normalize :: "string \<Rightarrow> string" where
  "call_normalize p = (if CHR ''%'' \<in> set p then decode_unreserved (uppercase_escapes p) else p)"

text \<open>
  \<open>request.query\<close>, which the framework parses from the URL: the parameters are split at
  \<open>&\<close>, each at its first \<open>=\<close>, a \<open>+\<close> is a space and the percent escapes of ASCII characters
  are decoded. A key that is absent reads \<open>undefined\<close>, a key given once reads its value, and
  a key given several times reads the array of its values.
\<close>

fun unescape :: "string \<Rightarrow> string" where
  "unescape (c # a # b # s) =
     (if c = CHR ''%'' \<and> hex_val a \<noteq> None \<and> hex_val b \<noteq> None \<and>
         16 * the (hex_val a) + the (hex_val b) < 128
      then char_of (16 * the (hex_val a) + the (hex_val b)) # unescape s
      else c # unescape (a # b # s))"
| "unescape s = s"

definition query_decode :: "string \<Rightarrow> string" where
  "query_decode s = unescape (map (\<lambda>c. if c = CHR ''+'' then CHR '' '' else c) s)"

definition query_values :: "string \<Rightarrow> string \<Rightarrow> string list" where
  "query_values k u =
     (case search u of
        [] \<Rightarrow> []
      | q # qs \<Rightarrow>
          map snd
            (filter (\<lambda>kv. fst kv = k)
               (map (\<lambda>kv. (query_decode (takeWhile (\<lambda>c. c \<noteq> CHR ''='') kv),
                           query_decode (drop 1 (dropWhile (\<lambda>c. c \<noteq> CHR ''='') kv))))
                  (split_on CHR ''&'' qs))))"

definition request_query :: "string \<Rightarrow> request \<Rightarrow> jsval" where
  "request_query k request =
     (case query_values k (url_path request) of
        [] \<Rightarrow> JUndefined
      | [v] \<Rightarrow> JStr v
      | vs \<Rightarrow> JArr (map JStr vs))"

text \<open>
  A custom extractor, the one of the repository's tests:
  \<open>version ? parseInt(request.query.version, 10) : null\<close>.
\<close>

definition getVersion_query :: "request \<Rightarrow> js_error + jsval" where
  "getVersion_query request =
     (let version = request_query ''version'' request in
      if truthy version then Inr (parseInt (js_string version)) else Inr JNull)"

text \<open>
  A route table of literal paths for \<open>GET\<close>, and a request as the framework builds it from
  the request line, which no handler has seen yet.
\<close>

definition literal_routes :: "string list \<Rightarrow> string \<Rightarrow> string \<Rightarrow> string option" where
  "literal_routes paths m p = (if m = ''get'' \<and> p \<in> set paths then Some p else None)"

definition get_request :: "string \<Rightarrow> (string \<times> string) list \<Rightarrow> request" where
  "get_request url hs =
     \<lparr>http_method = ''get'', path = call_normalize (pathname url), url_path = url,
      headers = map_of hs, plugins = None, router_normalize = call_normalize, setUrl_calls = []\<rparr>"

text \<open>The options object with no key at all, to be filled in.\<close>

definition no_options :: raw_options where
  "no_options =
     \<lparr>raw_validVersions = OMissing, raw_defaultVersion = OMissing, raw_passiveMode = OMissing,
      raw_basePath = OMissing, raw_vendorName = OMissing, raw_getVersion = OMissing,
      raw_descriptor = OMissing, raw_invalidVersionErrorCode = OMissing, unknownKeys = []\<rparr>"

text \<open>
  A model of Joi's conversions, for the concrete options below: a string of decimal digits
  with an optional sign becomes that integer, \<open>true\<close> and \<open>false\<close> become the booleans, and
  every other string is left as it is.
\<close>

definition integer_literal :: "string \<Rightarrow> bool" where
  "integer_literal s =
     (case s of
        [] \<Rightarrow> False
      | c # r \<Rightarrow> if c = CHR ''-'' \<or> c = CHR ''+'' then r \<noteq> [] \<and> list_all is_digit r
                  else list_all is_digit s)"

definition joi_strings :: joi_convert where
  "joi_strings =
     \<lparr>to_number = (\<lambda>s. if integer_literal s
                        then (case parseInt s of JNum n \<Rightarrow> OInt n | _ \<Rightarrow> OStr s) else OStr s),
      to_boolean = (\<lambda>s. if s = ''true'' then OBool True else if s = ''false'' then OBool False
                         else OStr s),
      to_array = OStr\<rparr>"

text \<open>The slot of a request, with the initial object where there is none yet.\<close>

definition slot :: "request \<Rightarrow> request_plugin" where
  "slot r =
     (case plugins r of
        Some p \<Rightarrow> p
      | None \<Rightarrow> \<lparr>apiVersion = JUndefined, useDefault = True, count = 0, resolvedBy = None\<rparr>)"

text \<open>A request is claimed once its slot holds a version that is not the default.\<close>

definition claimed :: "request \<Rightarrow> bool" where
  "claimed r = (truthy (apiVersion (slot r)) \<and> \<not> useDefault (slot r))"

text \<open>The handler is active on a request under its base path.\<close>

definition under_basePath :: "options \<Rightarrow> request \<Rightarrow> bool" where
  "under_basePath options r = (basePath options = ''/'' \<or> startsWith (basePath options) (path r))"

text \<open>The request the extractor is called on: the slot is there, its count incremented.\<close>

definition counted :: "request \<Rightarrow> request" where
  "counted r = r\<lparr>plugins := Some ((slot r)\<lparr>count := count (slot r) + 1\<rparr>)\<rparr>"

text \<open>The candidate version of an instance: its callback, or the media-type extractor.\<close>

definition candidate :: "(string \<Rightarrow> media) \<Rightarrow> options \<Rightarrow> request \<Rightarrow> js_error + jsval" where
  "candidate fromString options r =
     (case getVersion options of
        Some f \<Rightarrow> f r
      | None \<Rightarrow> extractVersionFromAcceptHeader fromString r options)"

text \<open>
  The path the handler looks a route up at, computed from \<open>request.path\<close>, and the test it
  makes of the route it finds: its registered path begins with the base path, \<open>v<version>\<close>
  and a slash.
\<close>

definition versionedPath :: "options \<Rightarrow> jsval \<Rightarrow> request \<Rightarrow> string" where
  "versionedPath options v r =
     basePath options @ ''v'' @ js_string v @ js_slice (path r) (int (length (basePath options)) - 1)"

definition route_exists :: "server \<Rightarrow> options \<Rightarrow> jsval \<Rightarrow> request \<Rightarrow> bool" where
  "route_exists server options v r =
     (case route_match server (http_method r) (versionedPath options v r) of
        None \<Rightarrow> False
      | Some route_path \<Rightarrow> startsWith (basePath options @ ''v'' @ js_string v @ ''/'') route_path)"

text \<open>
  The request after the rewrite with a version, as the handler publishes it: the URL handed
  to \<open>setUrl\<close> is computed from \<open>request.url.path\<close>.
\<close>

definition rewritten :: "options \<Rightarrow> jsval \<Rightarrow> bool \<Rightarrow> request \<Rightarrow> request" where
  "rewritten options v dflt r =
     (setUrl
        (basePath options @ ''v'' @ js_string v @
         js_slice (url_path r) (int (length (basePath options)) - 1))
        (counted r))
     \<lparr>plugins :=
        Some \<lparr>apiVersion = v, useDefault = dflt, count = count (slot r) + 1,
              resolvedBy = Some (if dflt then ''default'' else descriptor options)\<rparr>\<rparr>"

text \<open>The candidate is an array.\<close>

fun is_array :: "jsval \<Rightarrow> bool" where
  "is_array (JArr xs) = True"
| "is_array v = False"

text \<open>The versions of a configuration are positive, as the specification has them.\<close>

definition positive_versions :: "options \<Rightarrow> bool" where
  "positive_versions options = list_all (\<lambda>n. 0 < n) (validVersions options)"

section \<open>Concrete configurations and servers\<close>

text \<open>
  The configuration of the repository's tests: versions 1 and 2, default 1, the media-type
  extractor with vendor \<open>mysuperapi\<close>; as handed to \<open>register\<close> and as validated.
\<close>

definition accept_raw :: raw_options where
  "accept_raw =
     no_options\<lparr>raw_validVersions := OArr [OInt 1, OInt 2], raw_defaultVersion := OInt 1,
                raw_vendorName := OStr ''mysuperapi''\<rparr>"

definition accept_options :: options where
  "accept_options =
     \<lparr>validVersions = [1, 2], defaultVersion = 1, passiveMode = False, basePath = ''/'',
      vendorName = Some ''mysuperapi'', getVersion = None, descriptor = ''mediatype'',
      invalidVersionErrorCode = 415\<rparr>"

text \<open>A second instance, reading the query parameter, under the descriptor \<open>querystring\<close>.\<close>

definition query_raw :: raw_options where
  "query_raw =
     no_options\<lparr>raw_validVersions := OArr [OInt 1, OInt 2], raw_defaultVersion := OInt 1,
                raw_getVersion := OFunc getVersion_query, raw_descriptor := OStr ''querystring''\<rparr>"

definition query_options :: options where
  "query_options =
     \<lparr>validVersions = [1, 2], defaultVersion = 1, passiveMode = False, basePath = ''/'',
      vendorName = None, getVersion = Some getVersion_query, descriptor = ''querystring'',
      invalidVersionErrorCode = 415\<rparr>"

text \<open>
  The custom extractor of the repository's documentation,
  \<open>(request, options) => { return parseInt(request.query.version, 10); }\<close>: without the
  parameter, \<open>parseInt\<close> reads the string \<open>undefined\<close>.
\<close>

definition getVersion_readme :: "request \<Rightarrow> js_error + jsval" where
  "getVersion_readme request = Inr (parseInt (js_string (request_query ''version'' request)))"

definition readme_options :: options where
  "readme_options = query_options\<lparr>getVersion := Some getVersion_readme\<rparr>"

text \<open>The test configuration in passive mode, and the same with a query instance.\<close>

definition passive_options :: options where
  "passive_options = accept_options\<lparr>passiveMode := True\<rparr>"

definition passive_query_options :: options where
  "passive_query_options = query_options\<lparr>passiveMode := True\<rparr>"

text \<open>The test configuration under the base path \<open>/api/\<close>, as the documentation has it.\<close>

definition api_options :: options where
  "api_options = accept_options\<lparr>basePath := ''/api/''\<rparr>"

text \<open>The test configuration with a status code that is no error code.\<close>

definition ok_code_options :: options where
  "ok_code_options = accept_options\<lparr>invalidVersionErrorCode := 200\<rparr>"

text \<open>The test configuration with a vendor name that reads like a version facet.\<close>

definition v2_vendor_options :: options where
  "v2_vendor_options = accept_options\<lparr>vendorName := Some ''v2''\<rparr>"

text \<open>Options whose valid versions are zero, negative and repeated.\<close>

definition nonpositive_raw :: raw_options where
  "nonpositive_raw =
     accept_raw\<lparr>raw_validVersions := OArr [OInt 0, OInt (- 1), OInt 0], raw_defaultVersion := OInt 0\<rparr>"

definition nonpositive_options :: options where
  "nonpositive_options = accept_options\<lparr>validVersions := [0, - 1, 0], defaultVersion := 0\<rparr>"

text \<open>A server with the given instances registered, in this order, and the given routes.\<close>

definition server_with :: "options list \<Rightarrow> string list \<Rightarrow> server" where
  "server_with instances paths =
     \<lparr>plugin_count = length instances, plugin_descriptors = map descriptor instances,
      onRequest_exts = instances, route_match = literal_routes paths\<rparr>"

section \<open>The handler, case by case\<close>

lemma counted_simps [simp]:
  "path (counted r) = path r" "url_path (counted r) = url_path r"
  "http_method (counted r) = http_method r" "headers (counted r) = headers r"
  "setUrl_calls (counted r) = setUrl_calls r" "router_normalize (counted r) = router_normalize r"
  "slot (counted r) = (slot r)\<lparr>count := count (slot r) + 1\<rparr>"
  by (simp_all add: counted_def slot_def)

lemma rewritten_simps [simp]:
  "setUrl_calls (rewritten opts v d r) =
     (basePath opts @ ''v'' @ js_string v @ js_slice (url_path r) (int (length (basePath opts)) - 1))
     # setUrl_calls r"
  "url_path (rewritten opts v d r) =
     basePath opts @ ''v'' @ js_string v @ js_slice (url_path r) (int (length (basePath opts)) - 1)"
  "path (rewritten opts v d r) = router_normalize r (pathname (url_path (rewritten opts v d r)))"
  "http_method (rewritten opts v d r) = http_method r"
  "headers (rewritten opts v d r) = headers r"
  "router_normalize (rewritten opts v d r) = router_normalize r"
  "slot (rewritten opts v d r) =
     \<lparr>apiVersion = v, useDefault = d, count = count (slot r) + 1,
      resolvedBy = Some (if d then ''default'' else descriptor opts)\<rparr>"
  by (simp_all add: rewritten_def setUrl_def slot_def)

lemma onRequest_skip:
  "\<not> under_basePath opts r \<Longrightarrow> onRequest fs srv opts r = Continue r"
  by (simp add: onRequest_def under_basePath_def)

lemma onRequest_claimed:
  assumes "under_basePath opts r" "claimed r"
  shows "onRequest fs srv opts r = Continue r"
proof -
  from assms(2) obtain p where p: "plugins r = Some p"
    by (cases "plugins r") (auto simp: claimed_def slot_def)
  then have "r\<lparr>plugins := Some p\<rparr> = r" by simp
  with assms p show ?thesis
    by (auto simp: onRequest_def under_basePath_def claimed_def slot_def)
qed

lemma boom_create_cases:
  "boom_create code message = (if 400 \<le> code then Inr (code, message) else Inl AssertionError)"
  by (simp add: boom_create_def)

lemma onRequest_extract:
  assumes "under_basePath opts r" "\<not> claimed r"
  shows "onRequest fs srv opts r =
     (case candidate fs opts (counted r) of
        Inl e \<Rightarrow> Throw e (counted r)
      | Inr v \<Rightarrow>
          if \<not> truthy v then
            (if passiveMode opts \<or> count (slot r) + 1 \<noteq> plugin_count srv then Continue (counted r)
             else if route_exists srv opts (JNum (defaultVersion opts)) r
             then Continue (rewritten opts (JNum (defaultVersion opts)) True r)
             else Continue (counted r))
          else
            (case hoek_contain (validVersions opts) v of
               Inl e \<Rightarrow> Throw e (counted r)
             | Inr isMember \<Rightarrow>
                 if \<not> isMember then
                   (if 400 \<le> invalidVersionErrorCode opts
                    then Reply (invalidVersionErrorCode opts)
                           (''Invalid api-version. Valid values: '' @ join_versions (validVersions opts))
                           (counted r)
                    else Throw AssertionError (counted r))
                 else if route_exists srv opts v r then Continue (rewritten opts v False r)
                 else Continue (counted r)))"
proof -
  have s: "(case plugins r of Some p \<Rightarrow> p
            | None \<Rightarrow> \<lparr>apiVersion = JUndefined, useDefault = True, count = 0, resolvedBy = None\<rparr>) = slot r"
    by (simp add: slot_def)
  have c: "r\<lparr>plugins := Some ((slot r)\<lparr>count := count (slot r) + 1\<rparr>)\<rparr> = counted r"
    by (simp add: counted_def)
  from assms show ?thesis
    unfolding onRequest_def s Let_def c candidate_def [symmetric] boom_create_cases
    by (auto simp: under_basePath_def claimed_def route_exists_def versionedPath_def rewritten_def
             split: sum.splits option.splits)
qed

lemma onRequest_passive:
  assumes "under_basePath opts r" "\<not> claimed r" "candidate fs opts (counted r) = Inr v"
    "passiveMode opts" "\<not> truthy v"
  shows "onRequest fs srv opts r = Continue (counted r)"
  using assms by (simp add: onRequest_extract)

lemma onRequest_invalid:
  assumes "under_basePath opts r" "\<not> claimed r" "candidate fs opts (counted r) = Inr v"
    "truthy v" "hoek_contain (validVersions opts) v = Inr False"
  shows "onRequest fs srv opts r =
     (if 400 \<le> invalidVersionErrorCode opts
      then Reply (invalidVersionErrorCode opts)
             (''Invalid api-version. Valid values: '' @ join_versions (validVersions opts)) (counted r)
      else Throw AssertionError (counted r))"
  using assms by (simp add: onRequest_extract)

lemma onRequest_defer:
  assumes "under_basePath opts r" "\<not> claimed r" "candidate fs opts (counted r) = Inr v"
    "\<not> truthy v" "count (slot r) + 1 \<noteq> plugin_count srv"
  shows "onRequest fs srv opts r = Continue (counted r)"
  using assms by (simp add: onRequest_extract)

lemma onRequest_default:
  assumes "under_basePath opts r" "\<not> claimed r" "candidate fs opts (counted r) = Inr v"
    "\<not> truthy v" "\<not> passiveMode opts" "count (slot r) + 1 = plugin_count srv"
  shows "onRequest fs srv opts r =
     Continue (if route_exists srv opts (JNum (defaultVersion opts)) r
               then rewritten opts (JNum (defaultVersion opts)) True r else counted r)"
  using assms by (simp add: onRequest_extract)



text \<open>
  What \<open>Hoek.contain\<close> comes to for a candidate that is no array: strict equality with a
  member. A version that passed it is a member, or an array of members.
\<close>

lemma first_match_single: "first_match [v] n = (if v = JNum n then Some 0 else None)"
  by simp

lemma hoek_contain_scalar:
  assumes "\<not> is_array v"
  shows "hoek_contain ref v = Inr (v \<in> JNum ` set ref)"
proof -
  have "list_ex (\<lambda>n. first_match [v] n = Some 0) ref = (v \<in> JNum ` set ref)"
    by (auto simp: list_ex_iff)
  with assms show ?thesis by (cases v) (simp_all add: hoek_contain_def del: first_match.simps)
qed


lemma positive_sentinel:
  assumes "positive_versions opts"
  shows "hoek_contain (validVersions opts) (JNum (- 1)) = Inr False"
proof -
  have "- 1 \<notin> set (validVersions opts)"
    using assms by (auto simp: positive_versions_def list_all_iff)
  then show ?thesis by (auto simp: hoek_contain_scalar)
qed

section \<open>The outcomes of one handler\<close>


section \<open>Passive mode\<close>

text \<open>
  Claim C8. An instance in passive mode that extracts no version from a request lets the
  request through as it came: the handler continues, the path, the URL and the record of
  \<open>setUrl\<close> calls are unchanged (no rewrite, no default applied), and the slot holds the
  version, the default flag and the descriptor it held before; on a request no instance has
  resolved, that is no version and no descriptor, so no resolution is published. Only the
  attempt count of the slot may change.
\<close>

theorem C8_passive_mode_bypass:
  assumes "passiveMode opts"
    and "\<exists>v. candidate fs opts (counted r) = Inr v \<and> \<not> truthy v"
  shows "\<exists>r'. onRequest fs srv opts r = Continue r' \<and>
           path r' = path r \<and> url_path r' = url_path r \<and> setUrl_calls r' = setUrl_calls r \<and>
           apiVersion (slot r') = apiVersion (slot r) \<and>
           useDefault (slot r') = useDefault (slot r) \<and>
           resolvedBy (slot r') = resolvedBy (slot r)"
proof (cases "under_basePath opts r \<and> \<not> claimed r")
  case False
  then have "onRequest fs srv opts r = Continue r"
    using onRequest_skip onRequest_claimed by blast
  then show ?thesis by simp
next
  case True
  from assms(2) obtain v where "candidate fs opts (counted r) = Inr v" "\<not> truthy v" by blast
  with True assms(1) have "onRequest fs srv opts r = Continue (counted r)"
    by (simp add: onRequest_passive)
  then show ?thesis by simp
qed

lemma passive_example:
  "candidate mediaType_fromString passive_options (counted (get_request ''/versioned'' [])) = Inr JNull"
  by code_simp

lemma plain_path: "CHR ''%'' \<notin> set u \<Longrightarrow> path (get_request u hs) = pathname u"
  by (auto simp: get_request_def call_normalize_def pathname_def dest: set_takeWhileD)

theorem C8_witness:
  "passiveMode passive_options \<and>
   (\<exists>r'. onRequest mediaType_fromString (server_with [passive_options] [''/v1/versioned''])
            passive_options (get_request ''/versioned'' []) = Continue r' \<and>
          path r' = ''/versioned'' \<and> setUrl_calls r' = [] \<and> apiVersion (slot r') = JUndefined \<and>
          resolvedBy (slot r') = None)"
proof -
  have p: "passiveMode passive_options" by (simp add: passive_options_def)
  have c: "\<exists>v. candidate mediaType_fromString passive_options (counted (get_request ''/versioned'' [])) = Inr v
            \<and> \<not> truthy v"
    using passive_example by simp
  have e: "path (get_request ''/versioned'' []) = ''/versioned''"
    "setUrl_calls (get_request ''/versioned'' []) = []"
    "apiVersion (slot (get_request ''/versioned'' [])) = JUndefined"
    "resolvedBy (slot (get_request ''/versioned'' [])) = None"
    by (simp_all add: plain_path pathname_def) (simp_all add: get_request_def slot_def)
  from C8_passive_mode_bypass [OF p c, of "server_with [passive_options] [''/v1/versioned'']"] p e
  show ?thesis by auto
qed

section \<open>Invalid versions\<close>

lemma fresh_get_request:
  "\<not> claimed (get_request u hs)" "plugins (get_request u hs) = None"
  "count (slot (get_request u hs)) = 0" "setUrl_calls (get_request u hs) = []"
  "url_path (get_request u hs) = u" "headers (get_request u hs) = map_of hs"
  "router_normalize (get_request u hs) = call_normalize"
  by (simp_all add: claimed_def slot_def get_request_def)

lemma root_basePath: "basePath opts = ''/'' \<Longrightarrow> under_basePath opts r"
  by (simp add: under_basePath_def)

lemma test_options_facts:
  "basePath accept_options = ''/''" "basePath query_options = ''/''"
  "basePath passive_options = ''/''" "basePath readme_options = ''/''"
  "basePath ok_code_options = ''/''" "basePath passive_query_options = ''/''"
  "validVersions accept_options = [1, 2]" "validVersions query_options = [1, 2]"
  "validVersions passive_options = [1, 2]" "validVersions readme_options = [1, 2]"
  "validVersions ok_code_options = [1, 2]" "validVersions passive_query_options = [1, 2]"
  by (simp_all add: accept_options_def query_options_def passive_options_def readme_options_def
        ok_code_options_def passive_query_options_def)

lemma v3_example:
  "candidate mediaType_fromString accept_options
     (counted (get_request ''/versioned'' [(''accept'', ''application/vnd.mysuperapi.v3+json'')])) =
   Inr (JNum 3)"
  "candidate mediaType_fromString ok_code_options
     (counted (get_request ''/versioned'' [(''accept'', ''application/vnd.mysuperapi.v3+json'')])) =
   Inr (JNum 3)"
  by code_simp+

lemma join_example: "join_versions [1, 2] = ''1,2''"
  by code_simp

lemma readme_example:
  "candidate mediaType_fromString readme_options (counted (get_request ''/versioned'' [])) = Inr JNaN"
  by code_simp

lemma readme_outcome:
  "onRequest mediaType_fromString (server_with [readme_options] [''/v1/versioned'']) readme_options
     (get_request ''/versioned'' []) =
   Continue (rewritten readme_options (JNum 1) True (get_request ''/versioned'' []))"
proof -
  let ?r = "get_request ''/versioned'' []"
  let ?s = "server_with [readme_options] [''/v1/versioned'']"
  have u: "under_basePath readme_options ?r" by (rule root_basePath [OF test_options_facts(4)])
  have p: "\<not> passiveMode readme_options" by (simp add: readme_options_def query_options_def)
  have k: "count (slot ?r) + 1 = plugin_count ?s"
    by (simp add: fresh_get_request server_with_def)
  have d: "defaultVersion readme_options = 1" by (simp add: readme_options_def query_options_def)
  have e: "route_exists ?s readme_options (JNum 1) ?r" by code_simp
  from onRequest_default [OF u fresh_get_request(1) readme_example _ p k] e show ?thesis
    by (simp add: d)
qed

lemma ok_code_outcome:
  "onRequest mediaType_fromString (server_with [ok_code_options] [''/v1/versioned'']) ok_code_options
     (get_request ''/versioned'' [(''accept'', ''application/vnd.mysuperapi.v3+json'')]) =
   Throw AssertionError
     (counted (get_request ''/versioned'' [(''accept'', ''application/vnd.mysuperapi.v3+json'')]))"
proof -
  let ?r = "get_request ''/versioned'' [(''accept'', ''application/vnd.mysuperapi.v3+json'')]"
  have u: "under_basePath ok_code_options ?r" by (rule root_basePath [OF test_options_facts(5)])
  have c: "hoek_contain (validVersions ok_code_options) (JNum 3) = Inr False"
    by (simp add: hoek_contain_scalar test_options_facts)
  have k: "invalidVersionErrorCode ok_code_options = 200" by (simp add: ok_code_options_def)
  from onRequest_invalid [OF u fresh_get_request(1) v3_example(2) _ c] show ?thesis
    by (simp add: k)
qed

text \<open>
  Claim C2, as the code has it. An instance runs its extraction on a request (one under its
  base path that no instance has claimed), and the candidate is truthy and fails the
  membership test: a candidate that is no array is not strictly equal to any member of
  \<open>validVersions\<close> (the malformed sentinel \<open>- 1\<close>, a negative number, a string, \<open>true\<close>), and for
  an array \<open>Hoek.contain\<close> returns false. When the configured \<open>invalidVersionErrorCode\<close> is 400
  or more, the handler replies with it and with the message that lists the valid versions,
  no later handler runs, and the path, the URL and the record of \<open>setUrl\<close> calls are those of
  the request as it came.
\<close>

theorem C2_truthy_invalid_version_rejected:
  assumes "under_basePath opts r" "\<not> claimed r"
    and "candidate fs opts (counted r) = Inr v"
    and "truthy v"
    and "if is_array v then hoek_contain (validVersions opts) v = Inr False
         else v \<notin> JNum ` set (validVersions opts)"
    and "400 \<le> invalidVersionErrorCode opts"
  shows "run_exts fs srv (opts # rest) r =
           Reply (invalidVersionErrorCode opts)
             (''Invalid api-version. Valid values: '' @ join_versions (validVersions opts))
             (counted r) \<and>
         path (counted r) = path r \<and> url_path (counted r) = url_path r \<and>
         setUrl_calls (counted r) = setUrl_calls r"
proof -
  have "hoek_contain (validVersions opts) v = Inr False"
    using assms(5) by (cases "is_array v") (simp_all add: hoek_contain_scalar)
  from onRequest_invalid [OF assms(1,2,3,4) this, of srv] assms(6) show ?thesis by simp
qed

theorem C2_witness:
  "run_exts mediaType_fromString (server_with [accept_options] [''/v1/versioned'']) [accept_options]
     (get_request ''/versioned'' [(''accept'', ''application/vnd.mysuperapi.v3+json'')]) =
   Reply 415 ''Invalid api-version. Valid values: 1,2''
     (counted (get_request ''/versioned'' [(''accept'', ''application/vnd.mysuperapi.v3+json'')]))"
proof -
  let ?r = "get_request ''/versioned'' [(''accept'', ''application/vnd.mysuperapi.v3+json'')]"
  have u: "under_basePath accept_options ?r" by (rule root_basePath [OF test_options_facts(1)])
  have t: "truthy (JNum 3)" by simp
  have c: "if is_array (JNum 3) then hoek_contain (validVersions accept_options) (JNum 3) = Inr False
           else JNum 3 \<notin> JNum ` set (validVersions accept_options)"
    by (simp add: test_options_facts)
  have o: "invalidVersionErrorCode accept_options = 415" "validVersions accept_options = [1, 2]"
    by (simp_all add: accept_options_def)
  have k: "400 \<le> invalidVersionErrorCode accept_options" by (simp add: o)
  have m: "''Invalid api-version. Valid values: '' @ ''1,2'' = ''Invalid api-version. Valid values: 1,2''"
    by simp
  from C2_truthy_invalid_version_rejected [OF u fresh_get_request(1) v3_example(1) t c k,
      of "server_with [accept_options] [''/v1/versioned'']" "[]"]
  show ?thesis unfolding o join_example m by (rule conjunct1)
qed

text \<open>
  The claim as stated covers every candidate that is not \<open>null\<close> or absent, and every
  configured status code. With the custom extractor of the repository's documentation, a
  request without the query parameter gives the candidate \<open>NaN\<close>: it is neither \<open>null\<close> nor
  \<open>undefined\<close> and no valid version, yet the handler takes it for "no version requested" and
  rewrites the request to the default version. And with the status code 200, which the schema
  accepts, the request for the invalid version 3 gets no response with that code:
  \<open>Boom.create\<close> fails its assertion and the handler ends with the exception.
\<close>

theorem C2_counterexample:
  "candidate mediaType_fromString readme_options (counted (get_request ''/versioned'' [])) = Inr JNaN \<and>
   JNaN \<noteq> JNull \<and> JNaN \<noteq> JUndefined \<and> \<not> contain (validVersions readme_options) JNaN \<and>
   onRequest mediaType_fromString (server_with [readme_options] [''/v1/versioned'']) readme_options
     (get_request ''/versioned'' []) =
   Continue (rewritten readme_options (JNum 1) True (get_request ''/versioned'' [])) \<and>
   path (rewritten readme_options (JNum 1) True (get_request ''/versioned'' [])) = ''/v1/versioned'' \<and>
   candidate mediaType_fromString ok_code_options
     (counted (get_request ''/versioned'' [(''accept'', ''application/vnd.mysuperapi.v3+json'')])) =
   Inr (JNum 3) \<and>
   \<not> contain (validVersions ok_code_options) (JNum 3) \<and>
   invalidVersionErrorCode ok_code_options = 200 \<and>
   onRequest mediaType_fromString (server_with [ok_code_options] [''/v1/versioned'']) ok_code_options
     (get_request ''/versioned'' [(''accept'', ''application/vnd.mysuperapi.v3+json'')]) =
   Throw AssertionError
     (counted (get_request ''/versioned'' [(''accept'', ''application/vnd.mysuperapi.v3+json'')]))"
proof -
  have a: "path (rewritten readme_options (JNum 1) True (get_request ''/versioned'' [])) = ''/v1/versioned''"
    by code_simp
  have b: "\<not> contain (validVersions readme_options) JNaN"
    by (auto simp: contain_def hoek_contain_scalar)
  have c: "\<not> contain (validVersions ok_code_options) (JNum 3)"
    by (simp add: contain_def hoek_contain_scalar test_options_facts)
  have d: "invalidVersionErrorCode ok_code_options = 200" by (simp add: ok_code_options_def)
  have e: "JNaN \<noteq> JNull" "JNaN \<noteq> JUndefined" by simp_all
  show ?thesis by (intro conjI readme_example e b readme_outcome a v3_example(2) c d ok_code_outcome)
qed

section \<open>Several instances on one request\<close>

lemma new_server_count: "plugin_count (new_server m) = length (onRequest_exts (new_server m))"
  by (simp add: new_server_def)

lemma register_count:
  assumes "plugin_count srv = length (onRequest_exts srv)"
  shows "plugin_count (snd (register conv srv raw)) =
         length (onRequest_exts (snd (register conv srv raw)))"
  using assms by (simp add: register_def split: sum.splits)











end
